theory Spec2Isabelle
  imports Main
begin

section \<open>Data Visualizer: the dispatch and extraction logic of app.py\<close>

text \<open>
  The program is one script: four small helpers (reading a workbook, reading a CSV file,
  extracting text from a PDF or a Word document, building a word cloud) and a chain of
  \<open>if\<close>/\<open>elif\<close> branches on the lower-cased extension of the uploaded file.

  Python strings are modelled as \<^typ>\<open>string\<close>; a \<^typ>\<open>char\<close> stands for a code point
  below 256, which is where the character classes used by \<open>str.strip\<close> and \<open>str.lower\<close>
  are written out below. Python integers are \<^typ>\<open>int\<close>. An exception is a value of
  \<open>py_error\<close>. The libraries the script calls (pandas, pdfplumber, python-docx, plotly,
  wordcloud, streamlit) are outside the script: what they read from a file is part of
  the model of the file, and what the script asks them to draw is recorded as a
  sequence of user-interface events.
\<close>

subsection \<open>Python built-ins used by the script\<close>

datatype py_error = IndexError | NameError | ValueError | ParseError

text \<open>
  \<open>xs[i]\<close> on a list of \<open>n\<close> elements: the indices 0 to \<open>n - 1\<close> read forwards, the indices
  \<open>- n\<close> to \<open>- 1\<close> read backwards from the last element, any other index raises.
\<close>

definition py_getitem :: "'a list \<Rightarrow> int \<Rightarrow> py_error + 'a" where
  "py_getitem xs i =
     (if 0 \<le> i \<and> i < int (length xs) then Inr (xs ! nat i)
      else if - int (length xs) \<le> i \<and> i < 0 then Inr (xs ! nat (int (length xs) + i))
      else Inl IndexError)"

text \<open>\<open>range(a, b)\<close>: the integers from \<open>a\<close> up to, not including, \<open>b\<close>.\<close>

definition py_range :: "int \<Rightarrow> int \<Rightarrow> int list" where
  "py_range a b = [a..b - 1]"

text \<open>
  \<open>str.isspace\<close> on one character, for code points below 256: the controls 9 to 13 and
  28 to 31, the space, NEL (133) and the no-break space (160).
\<close>

definition py_isspace :: "char \<Rightarrow> bool" where
  "py_isspace c =
     (let n = (of_char c :: nat)
      in (9 \<le> n \<and> n \<le> 13) \<or> (28 \<le> n \<and> n \<le> 32) \<or> n = 133 \<or> n = 160)"

definition lstrip :: "string \<Rightarrow> string" where
  "lstrip s = dropWhile py_isspace s"

definition rstrip :: "string \<Rightarrow> string" where
  "rstrip s = rev (dropWhile py_isspace (rev s))"

definition strip :: "string \<Rightarrow> string" where
  "strip s = rstrip (lstrip s)"

text \<open>
  \<open>str.lower\<close>, for code points below 256: the letters A to Z and the accented capitals
  192 to 222 (the multiplication sign 215 apart) move up by 32, every other character
  stays.
\<close>

definition lower_char :: "char \<Rightarrow> char" where
  "lower_char c =
     (let n = (of_char c :: nat)
      in if (65 \<le> n \<and> n \<le> 90) \<or> (192 \<le> n \<and> n \<le> 222 \<and> n \<noteq> 215)
         then char_of (n + 32) else c)"

definition py_lower :: "string \<Rightarrow> string" where
  "py_lower s = map lower_char s"

text \<open>
  \<open>s.split(sep)\<close> for a one-character separator: the pieces between the separators, empty
  pieces kept; the result always has at least one piece.
\<close>

fun py_split :: "char \<Rightarrow> string \<Rightarrow> string list" where
  "py_split sep [] = [[]]"
| "py_split sep (c # cs) =
     (if c = sep then [] # py_split sep cs
      else (let ws = py_split sep cs in (c # hd ws) # tl ws))"

text \<open>\<open>sep.join(xs)\<close>.\<close>

fun py_join :: "string \<Rightarrow> string list \<Rightarrow> string" where
  "py_join sep [] = []"
| "py_join sep [x] = x"
| "py_join sep (x # y # ys) = x @ sep @ py_join sep (y # ys)"

subsection \<open>The uploaded file and what the libraries read from it\<close>

text \<open>
  A data frame has named columns and rows of cells. A PDF page is what its
  \<open>extract_text()\<close> returns: a string, or \<open>None\<close> for a page with no extractable text.
  A Word paragraph is its \<open>text\<close>.
\<close>

record dataframe =
  columns :: "string list"
  rows :: "string list list"

type_synonym page = "string option"

text \<open>
  The uploaded file: its name, and what each container library makes of its bytes
  (an error when the bytes are not of that format). A workbook is its sheets in order,
  each with its name.
\<close>

record uploaded_file =
  name :: string
  excel_sheets :: "py_error + (string \<times> dataframe) list"
  csv_table :: "py_error + dataframe"
  pdf_pages :: "py_error + page list"
  docx_paragraphs :: "py_error + string list"

subsection \<open>Helper functions\<close>

text \<open>\<open>page.extract_text() or ""\<close>: \<open>None\<close> and the empty string both give the empty string.\<close>

definition or_empty :: "page \<Rightarrow> string" where
  "or_empty p = (case p of None \<Rightarrow> [] | Some t \<Rightarrow> (if t = [] then [] else t))"

text \<open>The \<open>for i in range(start_page, end_page)\<close> loop of \<open>extract_text_from_pdf\<close>.\<close>

fun pdf_loop :: "page list \<Rightarrow> int list \<Rightarrow> string \<Rightarrow> py_error + string" where
  "pdf_loop pages [] text = Inr text"
| "pdf_loop pages (i # idxs) text =
     (case py_getitem pages i of
        Inl e \<Rightarrow> Inl e
      | Inr page \<Rightarrow> pdf_loop pages idxs (text @ or_empty page))"

definition extract_text_from_pdf :: "uploaded_file \<Rightarrow> int \<Rightarrow> int \<Rightarrow> py_error + string" where
  "extract_text_from_pdf file start_page end_page =
     (case pdf_pages file of
        Inl e \<Rightarrow> Inl e
      | Inr pages \<Rightarrow>
          (let total_pages = int (length pages);
               end_page = min end_page total_pages
           in pdf_loop pages (py_range start_page end_page) []))"

text \<open>
  \<open>[p.text for p in doc.paragraphs if p.text.strip()]\<close>: the comprehension, as the loop it
  runs; a string is true when it is not empty.
\<close>

fun nonblank_paragraphs :: "string list \<Rightarrow> string list" where
  "nonblank_paragraphs [] = []"
| "nonblank_paragraphs (p # ps) =
     (if strip p \<noteq> [] then p # nonblank_paragraphs ps else nonblank_paragraphs ps)"

definition extract_text_from_docx :: "uploaded_file \<Rightarrow> py_error + string" where
  "extract_text_from_docx file =
     (case docx_paragraphs file of
        Inl e \<Rightarrow> Inl e
      | Inr paragraphs \<Rightarrow> Inr (py_join '' '' (nonblank_paragraphs paragraphs)))"

text \<open>
  The \<open>WordCloud\<close> object of the wordcloud package: the settings it is constructed with,
  and \<open>wc_words\<close>, the words with their frequencies that \<open>generate\<close> has chosen to
  render (none before \<open>generate\<close> has run).
\<close>

record wordcloud =
  width :: nat
  height :: nat
  background_color :: string
  max_words :: nat
  wc_words :: "(string \<times> nat) list"

definition WordCloud :: "nat \<Rightarrow> nat \<Rightarrow> string \<Rightarrow> nat \<Rightarrow> wordcloud" where
  "WordCloud w h bg mw =
     \<lparr>width = w, height = h, background_color = bg, max_words = mw, wc_words = []\<rparr>"

text \<open>
  The method \<open>generate\<close> belongs to the package, not to the script, and it can raise: it
  is a parameter of everything that calls it. Given the object and a text it returns the
  object with its words chosen, or an exception.
\<close>

type_synonym generate_method = "wordcloud \<Rightarrow> string \<Rightarrow> py_error + wordcloud"

definition generate_wordcloud :: "generate_method \<Rightarrow> string \<Rightarrow> py_error + wordcloud" where
  "generate_wordcloud generate text = generate (WordCloud 800 400 ''white'' 200) text"

text \<open>\<open>get_excel_sheet_names\<close>, \<open>read_excel\<close> and \<open>read_csv\<close> hand the file to pandas.\<close>

definition get_excel_sheet_names :: "uploaded_file \<Rightarrow> py_error + string list" where
  "get_excel_sheet_names file =
     (case excel_sheets file of Inl e \<Rightarrow> Inl e | Inr sheets \<Rightarrow> Inr (map fst sheets))"

definition read_excel :: "uploaded_file \<Rightarrow> string \<Rightarrow> py_error + dataframe" where
  "read_excel file sheet_name =
     (case excel_sheets file of
        Inl e \<Rightarrow> Inl e
      | Inr sheets \<Rightarrow>
          (case map_of sheets sheet_name of None \<Rightarrow> Inl ValueError | Some df \<Rightarrow> Inr df))"

definition read_csv :: "uploaded_file \<Rightarrow> py_error + dataframe" where
  "read_csv file = csv_table file"

subsection \<open>What the script shows\<close>

text \<open>
  A plotly express figure is the call that made it: the kind of chart, the data frame,
  the two column names (\<open>x\<close> and \<open>y\<close>, or \<open>names\<close> and \<open>values\<close> for a pie) and the title
  when one was given.
\<close>

datatype chart_kind = Bar | Pie | Line | Scatter

record figure =
  kind :: chart_kind
  data_frame :: dataframe
  x_col :: string
  y_col :: string
  title :: "string option"

text \<open>
  The streamlit calls of the main logic, in the order they are made. \<open>Pyplot\<close> is the
  matplotlib figure showing a word cloud. The pictographs that open the headings of the
  script are left out of the heading strings.
\<close>

datatype ui_event =
    Subheader string
  | Dataframe dataframe
  | PlotlyChart figure
  | Write string
  | Pyplot wordcloud
  | Info string

text \<open>A run of the main logic: the events shown, and the exception that ended it, if any.\<close>

type_synonym run = "ui_event list \<times> py_error option"

text \<open>What the widgets of the sidebar and of the page return in this run.\<close>

record widgets =
  chart_type :: string
  selected_sheet :: string
  cols :: "string list"

definition head :: "dataframe \<Rightarrow> dataframe" where
  "head df = df\<lparr>rows := take 5 (rows df)\<rparr>"

subsection \<open>Main logic\<close>

text \<open>\<open>uploaded_file.name.split(".")[-1].lower()\<close>; the split is never empty, so \<open>[-1]\<close> is its last piece.\<close>

definition file_type :: "string \<Rightarrow> string" where
  "file_type nm = py_lower (last (py_split (CHR ''.'') nm))"

text \<open>
  The guards of the \<open>if\<close>/\<open>elif\<close> chain, in their order; the chain has no \<open>else\<close>. The four
  branches are named by the format they handle.
\<close>

datatype format_tag = Spreadsheet | DelimitedText | PortableDocument | WordDocument

definition classify :: "string \<Rightarrow> format_tag option" where
  "classify ft =
     (if ft \<in> set [''xlsx'', ''xls''] then Some Spreadsheet
      else if ft = ''csv'' then Some DelimitedText
      else if ft = ''pdf'' then Some PortableDocument
      else if ft = ''docx'' then Some WordDocument
      else None)"

text \<open>
  Column selection and chart, Excel branch: \<open>cols\<close> is what \<open>st.multiselect\<close> returned, the
  selected column names in the order of selection. When no comparison of \<open>chart_type\<close>
  succeeds, \<open>fig\<close> is unbound at \<open>st.plotly_chart(fig)\<close>.
\<close>

definition excel_column_selection :: "dataframe \<Rightarrow> string list \<Rightarrow> string \<Rightarrow> run" where
  "excel_column_selection df cs ct =
     (if length cs \<ge> 2 then
        (let x_axis = cs ! 0; y_axis = cs ! 1 in
         if ct = ''Bar Chart'' then
           ([PlotlyChart \<lparr>kind = Bar, data_frame = df, x_col = x_axis, y_col = y_axis,
               title = Some (y_axis @ '' by '' @ x_axis)\<rparr>], None)
         else if ct = ''Pie Chart'' then
           ([PlotlyChart \<lparr>kind = Pie, data_frame = df, x_col = x_axis, y_col = y_axis,
               title = Some (y_axis @ '' distribution by '' @ x_axis)\<rparr>], None)
         else if ct = ''Line Chart'' then
           ([PlotlyChart \<lparr>kind = Line, data_frame = df, x_col = x_axis, y_col = y_axis,
               title = Some (y_axis @ '' trend by '' @ x_axis)\<rparr>], None)
         else if ct = ''Scatter Plot'' then
           ([PlotlyChart \<lparr>kind = Scatter, data_frame = df, x_col = x_axis, y_col = y_axis,
               title = Some (y_axis @ '' vs '' @ x_axis)\<rparr>], None)
         else ([], Some NameError))
      else ([], None))"

text \<open>The same in the CSV branch, where the charts have no title.\<close>

definition csv_column_selection :: "dataframe \<Rightarrow> string list \<Rightarrow> string \<Rightarrow> run" where
  "csv_column_selection df cs ct =
     (if length cs \<ge> 2 then
        (let x_axis = cs ! 0; y_axis = cs ! 1 in
         if ct = ''Bar Chart'' then
           ([PlotlyChart \<lparr>kind = Bar, data_frame = df, x_col = x_axis, y_col = y_axis,
               title = None\<rparr>], None)
         else if ct = ''Pie Chart'' then
           ([PlotlyChart \<lparr>kind = Pie, data_frame = df, x_col = x_axis, y_col = y_axis,
               title = None\<rparr>], None)
         else if ct = ''Line Chart'' then
           ([PlotlyChart \<lparr>kind = Line, data_frame = df, x_col = x_axis, y_col = y_axis,
               title = None\<rparr>], None)
         else if ct = ''Scatter Plot'' then
           ([PlotlyChart \<lparr>kind = Scatter, data_frame = df, x_col = x_axis, y_col = y_axis,
               title = None\<rparr>], None)
         else ([], Some NameError))
      else ([], None))"

text \<open>Running one part of a branch after another: an exception ends the run.\<close>

definition and_then :: "run \<Rightarrow> run \<Rightarrow> run" where
  "and_then r1 r2 =
     (case snd r1 of Some e \<Rightarrow> r1 | None \<Rightarrow> (fst r1 @ fst r2, snd r2))"

definition excel_branch :: "uploaded_file \<Rightarrow> widgets \<Rightarrow> run" where
  "excel_branch file w =
     (case get_excel_sheet_names file of
        Inl e \<Rightarrow> ([], Some e)
      | Inr sheet_names \<Rightarrow>
          (case read_excel file (selected_sheet w) of
             Inl e \<Rightarrow> ([], Some e)
           | Inr df \<Rightarrow>
               and_then
                 ([Subheader (''Data Preview: '' @ selected_sheet w), Dataframe (head df)], None)
                 (excel_column_selection df (cols w) (chart_type w))))"

definition csv_branch :: "uploaded_file \<Rightarrow> widgets \<Rightarrow> run" where
  "csv_branch file w =
     (case read_csv file of
        Inl e \<Rightarrow> ([], Some e)
      | Inr df \<Rightarrow>
          and_then
            ([Subheader ''Data Preview'', Dataframe (head df)], None)
            (csv_column_selection df (cols w) (chart_type w)))"

text \<open>
  \<open>text[:2000] + "..." if len(text) > 2000 else text\<close>: the conditional expression binds
  weaker than \<open>+\<close>.
\<close>

definition preview :: "string \<Rightarrow> string" where
  "preview text = (if length text > 2000 then take 2000 text @ ''...'' else text)"

text \<open>
  The PDF branch. The text is written first; the word cloud is generated only when the
  text is not the empty string, and the call comes before the second heading and the
  figure, so an exception raised by \<open>generate\<close> ends the run with neither shown.
\<close>

definition pdf_branch :: "generate_method \<Rightarrow> uploaded_file \<Rightarrow> run" where
  "pdf_branch generate file =
     (case extract_text_from_pdf file 0 5 of
        Inl e \<Rightarrow> ([Subheader ''Extracted Text from PDF''], Some e)
      | Inr text \<Rightarrow>
          and_then
            ([Subheader ''Extracted Text from PDF'', Write (preview text)], None)
            (if text \<noteq> [] then
               (case generate_wordcloud generate text of
                  Inl e \<Rightarrow> ([], Some e)
                | Inr wc \<Rightarrow> ([Subheader ''Word Cloud from PDF'', Pyplot wc], None))
             else ([], None)))"

text \<open>The Word branch has the same shape.\<close>

definition docx_branch :: "generate_method \<Rightarrow> uploaded_file \<Rightarrow> run" where
  "docx_branch generate file =
     (case extract_text_from_docx file of
        Inl e \<Rightarrow> ([Subheader ''Extracted Text from Word Document''], Some e)
      | Inr text \<Rightarrow>
          and_then
            ([Subheader ''Extracted Text from Word Document'', Write (preview text)], None)
            (if text \<noteq> [] then
               (case generate_wordcloud generate text of
                  Inl e \<Rightarrow> ([], Some e)
                | Inr wc \<Rightarrow> ([Subheader ''Word Cloud from Word Document'', Pyplot wc], None))
             else ([], None)))"

definition main :: "generate_method \<Rightarrow> uploaded_file option \<Rightarrow> widgets \<Rightarrow> run" where
  "main generate uploaded w =
     (case uploaded of
        None \<Rightarrow> ([Info ''Please upload a file from the sidebar to get started.''], None)
      | Some file \<Rightarrow>
          (case classify (file_type (name file)) of
             Some Spreadsheet \<Rightarrow> excel_branch file w
           | Some DelimitedText \<Rightarrow> csv_branch file w
           | Some PortableDocument \<Rightarrow> pdf_branch generate file
           | Some WordDocument \<Rightarrow> docx_branch generate file
           | None \<Rightarrow> ([], None)))"

text \<open>Reading a run: the texts written, the word clouds drawn, the charts drawn.\<close>

fun written :: "ui_event list \<Rightarrow> string list" where
  "written [] = []"
| "written (Write s # evs) = s # written evs"
| "written (_ # evs) = written evs"

fun wordclouds :: "ui_event list \<Rightarrow> wordcloud list" where
  "wordclouds [] = []"
| "wordclouds (Pyplot wc # evs) = wc # wordclouds evs"
| "wordclouds (_ # evs) = wordclouds evs"

fun charts :: "ui_event list \<Rightarrow> figure list" where
  "charts [] = []"
| "charts (PlotlyChart fig # evs) = fig # charts evs"
| "charts (_ # evs) = charts evs"

definition axes :: "run \<Rightarrow> (string \<times> string) list" where
  "axes r = map (\<lambda>fig. (x_col fig, y_col fig)) (charts (fst r))"

text \<open>The options of the chart type select box.\<close>

definition chart_types :: "string list" where
  "chart_types = [''Bar Chart'', ''Pie Chart'', ''Line Chart'', ''Scatter Plot'']"

subsection \<open>Case variations of an extension\<close>

text \<open>
  A case variation of a lower-case extension has, letter by letter, the letter itself or
  its ASCII capital.
\<close>

definition same_letter :: "char \<Rightarrow> char \<Rightarrow> bool" where
  "same_letter c d =
     (c = d \<or> (97 \<le> (of_char d :: nat) \<and> (of_char d :: nat) \<le> 122
               \<and> (of_char c :: nat) + 32 = of_char d))"

definition case_variant :: "string \<Rightarrow> string \<Rightarrow> bool" where
  "case_variant e ext = list_all2 same_letter e ext"

subsection \<open>The words of a word cloud\<close>

text \<open>
  Modelled from the spec: the tokenizer inside \<open>WordCloud.generate\<close>, which belongs to the
  wordcloud package and is not part of the script. The spec says the text is tokenized
  into words; here a word is a maximal run of characters that are not white space.
\<close>

fun words_from :: "string \<Rightarrow> string \<Rightarrow> string list" where
  "words_from cur [] = (if cur = [] then [] else [cur])"
| "words_from cur (c # cs) =
     (if py_isspace c then (if cur = [] then words_from [] cs else cur # words_from [] cs)
      else words_from (cur @ [c]) cs)"

definition tokenize :: "string \<Rightarrow> string list" where
  "tokenize text = words_from [] text"

text \<open>
  Modelled from the spec: the frequency count inside \<open>WordCloud.generate\<close>: every distinct
  word with the number of times it occurs.
\<close>

definition frequencies :: "string list \<Rightarrow> (string \<times> nat) list" where
  "frequencies ws = map (\<lambda>w. (w, count_list ws w)) (remdups ws)"

text \<open>
  Modelled from the spec: the ranking inside \<open>WordCloud.generate\<close>: the words in the order
  of falling frequency.
\<close>

definition rank :: "(string \<times> nat) list \<Rightarrow> (string \<times> nat) list" where
  "rank fs = sort_key (\<lambda>p. - int (snd p)) fs"

text \<open>
  Modelled from the spec: the ranking that \<open>WordCloud.generate\<close> works from, which the
  package decides and the script does not: the words of the text, those of the stop-word
  set dropped, ranked by frequency, the first \<open>limit\<close> of them. The stop-word set of the
  package is the parameter \<open>stopwords\<close>.
\<close>

definition ranked_words :: "string list \<Rightarrow> nat \<Rightarrow> string \<Rightarrow> (string \<times> nat) list" where
  "ranked_words stopwords limit text =
     take limit (rank (frequencies (filter (\<lambda>w. w \<notin> set stopwords) (tokenize text))))"

text \<open>
  Modelled from the spec: the method \<open>WordCloud.generate\<close> of the wordcloud package, which
  is not part of the script. It renders up to \<open>max_words\<close> of the ranked words: the ones,
  from the most frequent on, that its layout finds room for on the canvas; how many
  those are is the parameter \<open>placed\<close>. The spec does not say what the package does when
  no word is left to render: the package raises \<open>ValueError\<close> then, as for a text of white
  space or of stop words only.
\<close>

definition package_generate ::
  "string list \<Rightarrow> (wordcloud \<Rightarrow> (string \<times> nat) list \<Rightarrow> nat) \<Rightarrow> generate_method" where
  "package_generate stopwords placed self text =
     (let ranked = ranked_words stopwords (max_words self) text;
          rendered = take (placed self ranked) ranked
      in if rendered = [] then Inl ValueError else Inr (self\<lparr>wc_words := rendered\<rparr>))"

subsection \<open>Example inputs\<close>

definition no_file :: "string \<Rightarrow> uploaded_file" where
  "no_file nm = \<lparr>name = nm, excel_sheets = Inl ParseError, csv_table = Inl ParseError,
     pdf_pages = Inl ParseError, docx_paragraphs = Inl ParseError\<rparr>"

definition ten_pages :: "page list" where
  "ten_pages = [Some ''p0 '', Some ''p1 '', None, Some ''p3 '', Some ''p4 '', Some ''p5 '',
                Some ''p6 '', Some [], Some ''p8 '', Some ''p9'']"

definition report_pdf :: uploaded_file where
  "report_pdf = (no_file ''Report.PDF'')\<lparr>pdf_pages := Inr ten_pages\<rparr>"

definition blank_pdf :: uploaded_file where
  "blank_pdf = (no_file ''blank.pdf'')\<lparr>pdf_pages := Inr [Some '' '']\<rparr>"

definition long_pdf :: uploaded_file where
  "long_pdf = (no_file ''long.pdf'')\<lparr>pdf_pages := Inr [Some (replicate 2001 (CHR ''a''))]\<rparr>"

definition empty_pdf :: uploaded_file where
  "empty_pdf = (no_file ''scan.pdf'')\<lparr>pdf_pages := Inr [None, Some []]\<rparr>"

definition hello_docx :: uploaded_file where
  "hello_docx =
     (no_file ''hello.docx'')\<lparr>docx_paragraphs := Inr [''Hello'', [], ''  '', ''World'']\<rparr>"

definition stopword_pdf :: uploaded_file where
  "stopword_pdf = (no_file ''the.pdf'')\<lparr>pdf_pages := Inr [Some ''the'']\<rparr>"

definition cat_dog_pdf :: uploaded_file where
  "cat_dog_pdf = (no_file ''pets.pdf'')\<lparr>pdf_pages := Inr [Some ''the the the cat cat dog'']\<rparr>"

definition notes_txt :: uploaded_file where
  "notes_txt = no_file ''notes.txt''"

definition table_AB :: dataframe where
  "table_AB = \<lparr>columns = [''A'', ''B''], rows = [[''1'', ''2'']]\<rparr>"

definition sales_csv :: uploaded_file where
  "sales_csv = (no_file ''sales.csv'')\<lparr>csv_table := Inr table_AB\<rparr>"

definition bar_widgets :: widgets where
  "bar_widgets = \<lparr>chart_type = ''Bar Chart'', selected_sheet = ''Sheet1'', cols = []\<rparr>"

text \<open>
  A package with three stop words whose layout finds room for every ranked word, and a
  stand-in that returns the text it was handed as its one word.
\<close>

definition example_generate :: generate_method where
  "example_generate = package_generate [''a'', ''and'', ''the''] (\<lambda>self ws. length ws)"

definition echo_generate :: generate_method where
  "echo_generate self text = Inr (self\<lparr>wc_words := [(text, 1)]\<rparr>)"

subsection \<open>Text extraction from a PDF\<close>

lemma pdf_loop_in_range:
  "\<forall>i \<in> set idxs. 0 \<le> i \<and> i < int (length pages) \<Longrightarrow>
   pdf_loop pages idxs acc =
     Inr (acc @ concat (map (\<lambda>i. or_empty (pages ! nat i)) idxs))"
proof (induction idxs arbitrary: acc)
  case Nil
  then show ?case by simp
next
  case (Cons i idxs)
  then have "py_getitem pages i = Inr (pages ! nat i)"
    by (simp add: py_getitem_def)
  with Cons show ?case by simp
qed

lemma or_empty_eq: "or_empty p = (case p of None \<Rightarrow> [] | Some t \<Rightarrow> t)"
  by (simp add: or_empty_def split: option.splits)

lemma map_nat_upto:
  "0 \<le> a \<Longrightarrow> map nat [a..b - 1] = [nat a..<nat b]"
proof (induction "nat (b - a)" arbitrary: b)
  case 0
  then show ?case by simp
next
  case (Suc k)
  then have ab: "a \<le> b - 1" and k: "k = nat (b - 1 - a)" by linarith+
  have "[a..b - 1] = [a..b - 1 - 1] @ [b - 1]"
    using ab by (simp add: upto_rec2)
  moreover have "map nat [a..b - 1 - 1] = [nat a..<nat (b - 1)]"
    using Suc.hyps(1) [OF k] Suc.prems by simp
  moreover have "nat b = Suc (nat (b - 1))" and "nat a \<le> nat (b - 1)"
    using ab Suc.prems by linarith+
  ultimately show ?case by simp
qed

text \<open>
  C1. For a PDF with \<open>n\<close> pages and a window of zero-based page indices
  \<open>(start_page, end_page)\<close>, \<open>extract_text_from_pdf\<close> returns the texts of the pages
  \<open>start_page\<close> to \<open>min end_page n - 1\<close>, concatenated in page order; a page with no
  extractable text contributes the empty string; a window that reaches beyond the last
  page is clamped, and no \<open>IndexError\<close> is raised.
\<close>

theorem extract_text_from_pdf_window:
  assumes "pdf_pages file = Inr pages" and "0 \<le> start_page"
  shows "extract_text_from_pdf file start_page end_page =
           Inr (concat (map (\<lambda>i. case pages ! i of None \<Rightarrow> [] | Some t \<Rightarrow> t)
                  [nat start_page..<nat (min end_page (int (length pages)))]))"
proof -
  let ?e = "min end_page (int (length pages))"
  have "\<forall>i \<in> set (py_range start_page ?e). 0 \<le> i \<and> i < int (length pages)"
    using assms(2) by (auto simp: py_range_def)
  then have "pdf_loop pages (py_range start_page ?e) [] =
      Inr (concat (map (\<lambda>i. or_empty (pages ! nat i)) (py_range start_page ?e)))"
    using pdf_loop_in_range [of "py_range start_page ?e" pages "[]"] by simp
  moreover have "map (\<lambda>i. or_empty (pages ! nat i)) (py_range start_page ?e) =
      map (\<lambda>i. or_empty (pages ! i)) (map nat (py_range start_page ?e))"
    by (simp add: comp_def)
  moreover have "map nat (py_range start_page ?e) = [nat start_page..<nat ?e]"
    unfolding py_range_def using assms(2) by (rule map_nat_upto)
  ultimately show ?thesis
    using assms(1) by (simp add: extract_text_from_pdf_def or_empty_eq)
qed

theorem extract_text_from_pdf_window_witness:
  "pdf_pages report_pdf = Inr ten_pages \<and> (0::int) \<le> 8 \<and>
   extract_text_from_pdf report_pdf 8 20 = Inr ''p8 p9''"
  using extract_text_from_pdf_window [of report_pdf ten_pages 8 20]
  by (simp add: report_pdf_def no_file_def ten_pages_def upt_rec)

text \<open>The window (0, 5) on the same ten pages takes the pages 0 to 4; page 2 has no text.\<close>

lemma extract_text_from_pdf_first_five:
  "extract_text_from_pdf report_pdf 0 5 = Inr ''p0 p1 p3 p4 ''"
  by (simp add: extract_text_from_pdf_def report_pdf_def no_file_def ten_pages_def
      py_range_def py_getitem_def or_empty_def upto_rec1)

text \<open>
  A negative start is not a zero-based page index: Python's indexing then counts from
  the end of the page list, and raises below \<open>- n\<close>.
\<close>

lemma extract_text_from_pdf_negative_start:
  "extract_text_from_pdf report_pdf (- 1) 1 = Inr ''p9p0 ''"
  "extract_text_from_pdf report_pdf (- 11) 1 = Inl IndexError"
  by (simp_all add: extract_text_from_pdf_def report_pdf_def no_file_def ten_pages_def
      py_range_def py_getitem_def or_empty_def upto_rec1)

subsection \<open>Text extraction from a Word document\<close>

lemma nonblank_paragraphs_filter:
  "nonblank_paragraphs ps = filter (\<lambda>p. strip p \<noteq> []) ps"
  by (induction ps) simp_all

lemma py_join_closed_form:
  "py_join sep (x # xs) = x @ concat (map (\<lambda>y. sep @ y) xs)"
  by (induction xs arbitrary: x) simp_all

lemma append_single_fun: "(@) [c] = (#) c"
  by (rule ext) simp

text \<open>The trimmed text is empty exactly when every character is white space.\<close>

lemma strip_empty_iff: "strip p = [] \<longleftrightarrow> (\<forall>c \<in> set p. py_isspace c)"
proof
  assume e: "strip p = []"
  show "\<forall>c \<in> set p. py_isspace c"
  proof (rule ccontr)
    assume "\<not> (\<forall>c \<in> set p. py_isspace c)"
    then have ne: "dropWhile py_isspace p \<noteq> []"
      by (simp add: dropWhile_eq_Nil_conv)
    then have "\<not> py_isspace (hd (dropWhile py_isspace p))"
      by (rule hd_dropWhile)
    moreover have "hd (dropWhile py_isspace p) \<in> set (dropWhile py_isspace p)"
      using ne by simp
    moreover have "\<forall>c \<in> set (dropWhile py_isspace p). py_isspace c"
      using e by (simp add: strip_def rstrip_def lstrip_def dropWhile_eq_Nil_conv)
    ultimately show False by blast
  qed
next
  assume "\<forall>c \<in> set p. py_isspace c"
  then have "dropWhile py_isspace p = []"
    by (simp add: dropWhile_eq_Nil_conv)
  then show "strip p = []"
    unfolding strip_def rstrip_def lstrip_def by (simp only: rev.simps dropWhile.simps)
qed

lemma strip_examples:
  "strip ''Hello'' = ''Hello''" "strip [] = []" "strip ''  '' = []" "strip ''World'' = ''World''"
  "strip '' '' = []"
  by (simp_all add: strip_def rstrip_def lstrip_def py_isspace_def)

text \<open>
  C2. For a Word document, \<open>extract_text_from_docx\<close> returns the texts of the paragraphs
  whose trimmed text is not empty, in the order of the paragraphs, joined by one space:
  the first of them, then each later one after a space.
\<close>

theorem extract_text_from_docx_joined:
  assumes "docx_paragraphs file = Inr ps"
  shows "extract_text_from_docx file =
           Inr (case filter (\<lambda>p. strip p \<noteq> []) ps of
                  [] \<Rightarrow> []
                | q # qs \<Rightarrow> q @ concat (map (\<lambda>r. '' '' @ r) qs))"
proof (cases "filter (\<lambda>p. strip p \<noteq> []) ps")
  case Nil
  with assms show ?thesis
    by (simp add: extract_text_from_docx_def nonblank_paragraphs_filter)
next
  case (Cons q qs)
  with assms show ?thesis
    by (simp add: extract_text_from_docx_def nonblank_paragraphs_filter py_join_closed_form
        append_single_fun)
qed

theorem extract_text_from_docx_joined_witness:
  "docx_paragraphs hello_docx = Inr [''Hello'', [], ''  '', ''World''] \<and>
   extract_text_from_docx hello_docx = Inr ''Hello World''"
  using extract_text_from_docx_joined [of hello_docx "[''Hello'', [], ''  '', ''World'']"]
  by (simp add: hello_docx_def no_file_def strip_examples)

subsection \<open>Classification by extension\<close>

lemma py_split_not_Nil [simp]: "py_split sep s \<noteq> []"
  by (induction s) (simp_all add: Let_def)

lemma py_split_no_sep: "sep \<notin> set e \<Longrightarrow> py_split sep e = [e]"
  by (induction e) (auto simp: Let_def)

lemma py_split_length_sep: "sep \<in> set s \<Longrightarrow> 2 \<le> length (py_split sep s)"
proof (induction s)
  case Nil
  then show ?case by simp
next
  case (Cons c s)
  show ?case
  proof (cases "c = sep")
    case True
    then show ?thesis by (simp add: Suc_le_eq)
  next
    case False
    with Cons have "2 \<le> length (py_split sep s)" by simp
    with False show ?thesis by (simp add: Let_def)
  qed
qed

lemma last_py_split:
  "sep \<notin> set e \<Longrightarrow> last (py_split sep (s @ sep # e)) = e"
proof (induction s)
  case Nil
  then show ?case by (simp add: py_split_no_sep)
next
  case (Cons c s)
  let ?ws = "py_split sep (s @ sep # e)"
  have "2 \<le> length ?ws" by (rule py_split_length_sep) simp
  then have tl: "tl ?ws \<noteq> []" by (cases ?ws) auto
  then have "last ((c # hd ?ws) # tl ?ws) = last ?ws"
    by (cases ?ws) auto
  with Cons show ?case by (simp add: Let_def)
qed

lemma same_letter_lower:
  assumes "same_letter c d" and "lower_char d = d"
  shows "lower_char c = d"
proof (cases "c = d")
  case True
  with assms(2) show ?thesis by simp
next
  case False
  with assms(1) have d: "97 \<le> (of_char d :: nat)" "(of_char d :: nat) \<le> 122"
    and c: "(of_char c :: nat) + 32 = of_char d"
    by (simp_all add: same_letter_def)
  then have "65 \<le> (of_char c :: nat) \<and> (of_char c :: nat) \<le> 90" by linarith
  then have "lower_char c = char_of ((of_char c :: nat) + 32)"
    by (simp add: lower_char_def Let_def)
  also have "\<dots> = char_of (of_char d :: nat)" by (simp only: c)
  also have "\<dots> = d" by simp
  finally show ?thesis .
qed

lemma case_variant_lower:
  "case_variant e ext \<Longrightarrow> py_lower ext = ext \<Longrightarrow> py_lower e = ext"
  unfolding case_variant_def py_lower_def
  by (induction e ext rule: list_all2_induct) (simp_all add: same_letter_lower)

lemma extensions_lower:
  "py_lower ''xlsx'' = ''xlsx''" "py_lower ''xls'' = ''xls''" "py_lower ''csv'' = ''csv''"
  "py_lower ''pdf'' = ''pdf''" "py_lower ''docx'' = ''docx''"
  by code_simp+

lemma lower_char_dot: "lower_char (CHR ''.'') = CHR ''.''"
  by (simp add: lower_char_def)

lemma dot_in_lower: "CHR ''.'' \<in> set e \<Longrightarrow> CHR ''.'' \<in> set (py_lower e)"
proof -
  assume "CHR ''.'' \<in> set e"
  then have "lower_char (CHR ''.'') \<in> lower_char ` set e" by (rule imageI)
  then show ?thesis by (simp add: py_lower_def lower_char_dot)
qed

text \<open>
  C3. For a file name that ends in a dot and any case variation of one of the extensions
  xlsx, xls, csv, pdf, docx, the lower-cased last piece of the name is that extension and
  the chain takes exactly one branch, fixed by the extension alone and so the same for
  every case variation; xlsx and xls both take the spreadsheet branch.
\<close>

theorem classify_case_variant:
  assumes "ext \<in> {''xlsx'', ''xls'', ''csv'', ''pdf'', ''docx''}" and "case_variant e ext"
  shows "file_type (stem @ ''.'' @ e) = ext \<and>
         classify (file_type (stem @ ''.'' @ e)) =
           Some (if ext = ''xlsx'' \<or> ext = ''xls'' then Spreadsheet
                 else if ext = ''csv'' then DelimitedText
                 else if ext = ''pdf'' then PortableDocument
                 else WordDocument)"
proof -
  have "py_lower ext = ext"
    using assms(1) extensions_lower by auto
  with assms(2) have low: "py_lower e = ext" by (rule case_variant_lower)
  have "CHR ''.'' \<notin> set ext"
    using assms(1) by auto
  with low have "CHR ''.'' \<notin> set e"
    using dot_in_lower by blast
  then have ft: "file_type (stem @ ''.'' @ e) = ext"
    by (simp add: file_type_def last_py_split low)
  show ?thesis
    unfolding ft using assms(1) by (auto simp: classify_def)
qed

lemma case_variant_XlSx: "case_variant ''XlSx'' ''xlsx''"
  by code_simp

theorem classify_case_variant_witness:
  "''xlsx'' \<in> {''xlsx'', ''xls'', ''csv'', ''pdf'', ''docx''} \<and> case_variant ''XlSx'' ''xlsx'' \<and>
   file_type ''Sales.2024.XlSx'' = ''xlsx'' \<and>
   classify (file_type ''Sales.2024.XlSx'') = Some Spreadsheet"
proof -
  have h: "''xlsx'' \<in> {''xlsx'', ''xls'', ''csv'', ''pdf'', ''docx''}" by simp
  from classify_case_variant [OF h case_variant_XlSx, of "''Sales.2024''"] h case_variant_XlSx
  show ?thesis by auto
qed

subsection \<open>The word cloud guard and the preview\<close>

lemma extract_blank_pdf: "extract_text_from_pdf blank_pdf 0 5 = Inr '' ''"
  by (simp add: extract_text_from_pdf_def blank_pdf_def no_file_def py_range_def
      py_getitem_def or_empty_def upto_rec1)

lemma extract_empty_pdf: "extract_text_from_pdf empty_pdf 0 5 = Inr []"
  by (simp add: extract_text_from_pdf_def empty_pdf_def no_file_def py_range_def
      py_getitem_def or_empty_def upto_rec1)

lemma extract_long_pdf: "extract_text_from_pdf long_pdf 0 5 = Inr (replicate 2001 (CHR ''a''))"
  by (simp add: extract_text_from_pdf_def long_pdf_def no_file_def py_range_def
      py_getitem_def or_empty_def upto_rec1)

lemma extract_stopword_pdf: "extract_text_from_pdf stopword_pdf 0 5 = Inr ''the''"
  by (simp add: extract_text_from_pdf_def stopword_pdf_def no_file_def py_range_def
      py_getitem_def or_empty_def upto_rec1)

lemma extract_cat_dog_pdf:
  "extract_text_from_pdf cat_dog_pdf 0 5 = Inr ''the the the cat cat dog''"
  by (simp add: extract_text_from_pdf_def cat_dog_pdf_def no_file_def py_range_def
      py_getitem_def or_empty_def upto_rec1)

lemma classify_pdf_names:
  "classify (file_type ''blank.pdf'') = Some PortableDocument"
  "classify (file_type ''the.pdf'') = Some PortableDocument"
  by code_simp+

text \<open>What the example package does with three texts.\<close>

lemma example_generate_blank: "generate_wordcloud example_generate '' '' = Inl ValueError"
  by code_simp

lemma example_generate_the: "generate_wordcloud example_generate ''the'' = Inl ValueError"
  by code_simp

lemma example_generate_cat_dog:
  "generate_wordcloud example_generate ''the the the cat cat dog'' =
     Inr ((WordCloud 800 400 ''white'' 200)\<lparr>wc_words := [(''cat'', 2), (''dog'', 1)]\<rparr>)"
  by code_simp

lemma py_join_set:
  "q \<in> set qs \<Longrightarrow> set q \<subseteq> set (py_join sep qs)"
  by (induction sep qs rule: py_join.induct) auto

text \<open>
  The text extracted from a Word document is never white space only: it is empty, or it
  has a character that is not white space. A text of white space only can come from a
  PDF alone.
\<close>

lemma docx_text_never_blank:
  assumes "extract_text_from_docx file = Inr text"
  shows "strip text = [] \<longleftrightarrow> text = []"
proof
  assume blank: "strip text = []"
  obtain ps where ps: "docx_paragraphs file = Inr ps"
    and tx: "text = py_join '' '' (nonblank_paragraphs ps)"
    using assms by (auto simp: extract_text_from_docx_def split: sum.splits)
  show "text = []"
  proof (cases "nonblank_paragraphs ps")
    case Nil
    with tx show ?thesis by simp
  next
    case (Cons q qs)
    then have "q \<in> set (filter (\<lambda>p. strip p \<noteq> []) ps)"
      by (simp add: nonblank_paragraphs_filter [symmetric])
    then have "strip q \<noteq> []" by simp
    then obtain c where "c \<in> set q" and c: "\<not> py_isspace c"
      by (auto simp: strip_empty_iff)
    moreover have "set q \<subseteq> set text"
      unfolding tx using Cons by (intro py_join_set) simp
    ultimately have "c \<in> set text" by blast
    with c blank show ?thesis by (auto simp: strip_empty_iff)
  qed
next
  assume "text = []"
  then show "strip text = []" by (simp add: strip_examples)
qed

text \<open>
  C4, as stated, fails: the guard \<open>if text\<close> tests for the empty string, not for a text
  that is empty after trimming. A PDF whose only page holds one space gives the text
  \<open>" "\<close>, whose trimmed text is empty; the guard lets it through to \<open>generate\<close>, which has
  no word to render and raises. The run ends with \<open>ValueError\<close>: an error, not an absent
  result.
\<close>

theorem wordcloud_guard_counterexample:
  "strip '' '' = [] \<and>
   snd (main example_generate (Some blank_pdf) bar_widgets) = Some ValueError \<and>
   wordclouds (fst (main example_generate (Some blank_pdf) bar_widgets)) = []"
proof -
  have "name blank_pdf = ''blank.pdf''" by (simp add: blank_pdf_def no_file_def)
  then have "main example_generate (Some blank_pdf) bar_widgets =
      pdf_branch example_generate blank_pdf"
    by (simp add: main_def classify_pdf_names)
  then show ?thesis
    by (simp add: pdf_branch_def and_then_def extract_blank_pdf example_generate_blank
        strip_examples)
qed

text \<open>
  C4, amended. In the PDF branch and in the Word branch alike, whatever the package does:
  when the extracted text is the empty string, no word cloud is built and the run ends
  without an exception; when it is not empty, \<open>generate_wordcloud\<close> is called on it, and
  if the call returns a word cloud, that word cloud is the one shown and the run ends
  without an exception, while if the call raises, the exception ends the run and no word
  cloud is shown.
\<close>

theorem wordcloud_guard:
  "(extract_text_from_pdf file 0 5 = Inr text \<longrightarrow>
      (text = [] \<longrightarrow>
         snd (pdf_branch generate file) = None \<and>
         wordclouds (fst (pdf_branch generate file)) = []) \<and>
      (text \<noteq> [] \<longrightarrow>
         (\<forall>wc. generate_wordcloud generate text = Inr wc \<longrightarrow>
            snd (pdf_branch generate file) = None \<and>
            wordclouds (fst (pdf_branch generate file)) = [wc]) \<and>
         (\<forall>e. generate_wordcloud generate text = Inl e \<longrightarrow>
            snd (pdf_branch generate file) = Some e \<and>
            wordclouds (fst (pdf_branch generate file)) = []))) \<and>
   (extract_text_from_docx file = Inr text \<longrightarrow>
      (text = [] \<longrightarrow>
         snd (docx_branch generate file) = None \<and>
         wordclouds (fst (docx_branch generate file)) = []) \<and>
      (text \<noteq> [] \<longrightarrow>
         (\<forall>wc. generate_wordcloud generate text = Inr wc \<longrightarrow>
            snd (docx_branch generate file) = None \<and>
            wordclouds (fst (docx_branch generate file)) = [wc]) \<and>
         (\<forall>e. generate_wordcloud generate text = Inl e \<longrightarrow>
            snd (docx_branch generate file) = Some e \<and>
            wordclouds (fst (docx_branch generate file)) = [])))"
  by (simp add: pdf_branch_def docx_branch_def and_then_def)

theorem wordcloud_guard_witness:
  "extract_text_from_pdf empty_pdf 0 5 = Inr [] \<and>
   snd (pdf_branch example_generate empty_pdf) = None \<and>
   wordclouds (fst (pdf_branch example_generate empty_pdf)) = [] \<and>
   extract_text_from_pdf cat_dog_pdf 0 5 = Inr ''the the the cat cat dog'' \<and>
   snd (pdf_branch example_generate cat_dog_pdf) = None \<and>
   wordclouds (fst (pdf_branch example_generate cat_dog_pdf)) =
     [(WordCloud 800 400 ''white'' 200)\<lparr>wc_words := [(''cat'', 2), (''dog'', 1)]\<rparr>] \<and>
   extract_text_from_pdf stopword_pdf 0 5 = Inr ''the'' \<and>
   snd (pdf_branch example_generate stopword_pdf) = Some ValueError \<and>
   wordclouds (fst (pdf_branch example_generate stopword_pdf)) = []"
  using wordcloud_guard [of empty_pdf "[]" example_generate]
    wordcloud_guard [of cat_dog_pdf "''the the the cat cat dog''" example_generate]
    wordcloud_guard [of stopword_pdf "''the''" example_generate]
  by (simp add: extract_empty_pdf extract_cat_dog_pdf extract_stopword_pdf
      example_generate_cat_dog example_generate_the)

text \<open>
  C5. The truncation touches only what is displayed. In the PDF branch and in the Word
  branch, the one text written is the extracted text itself when it has at most 2000
  characters, and otherwise its first 2000 characters followed by \<open>"..."\<close>; and, whatever
  the package does, the text handed to \<open>generate\<close> for a text that is not empty is the
  whole extracted text: the rest of the run is what \<open>generate\<close> makes of that text, the
  word cloud it returns being the one shown, or the exception it raises ending the run.
\<close>

theorem preview_presentation_only:
  "(extract_text_from_pdf file 0 5 = Inr text \<longrightarrow>
      written (fst (pdf_branch generate file)) =
        [if length text \<le> 2000 then text else take 2000 text @ ''...''] \<and>
      (text \<noteq> [] \<longrightarrow>
         (case generate (WordCloud 800 400 ''white'' 200) text of
            Inl e \<Rightarrow> snd (pdf_branch generate file) = Some e \<and>
                     wordclouds (fst (pdf_branch generate file)) = []
          | Inr wc \<Rightarrow> snd (pdf_branch generate file) = None \<and>
                      wordclouds (fst (pdf_branch generate file)) = [wc]))) \<and>
   (extract_text_from_docx file = Inr text \<longrightarrow>
      written (fst (docx_branch generate file)) =
        [if length text \<le> 2000 then text else take 2000 text @ ''...''] \<and>
      (text \<noteq> [] \<longrightarrow>
         (case generate (WordCloud 800 400 ''white'' 200) text of
            Inl e \<Rightarrow> snd (docx_branch generate file) = Some e \<and>
                     wordclouds (fst (docx_branch generate file)) = []
          | Inr wc \<Rightarrow> snd (docx_branch generate file) = None \<and>
                      wordclouds (fst (docx_branch generate file)) = [wc])))"
  by (simp add: pdf_branch_def docx_branch_def and_then_def preview_def generate_wordcloud_def
      split: sum.splits)

theorem preview_presentation_only_witness:
  "extract_text_from_pdf long_pdf 0 5 = Inr (replicate 2001 (CHR ''a'')) \<and>
   written (fst (pdf_branch echo_generate long_pdf)) = [replicate 2000 (CHR ''a'') @ ''...''] \<and>
   wordclouds (fst (pdf_branch echo_generate long_pdf)) =
     [(WordCloud 800 400 ''white'' 200)\<lparr>wc_words := [(replicate 2001 (CHR ''a''), 1)]\<rparr>] \<and>
   snd (pdf_branch echo_generate long_pdf) = None"
  using preview_presentation_only [of long_pdf "replicate 2001 (CHR ''a'')" echo_generate]
  by (simp add: extract_long_pdf echo_generate_def)

subsection \<open>Extensions outside the accepted set\<close>

lemma file_type_notes_txt: "file_type ''notes.txt'' = ''txt''"
  by code_simp

text \<open>
  C9, as stated, fails: the chain of branches has no \<open>else\<close>, and nothing in the script
  raises for an extension it does not know. For a file named \<open>notes.txt\<close> the run shows
  nothing and ends without an exception.
\<close>

theorem unsupported_extension_counterexample:
  "file_type (name notes_txt) = ''txt'' \<and>
   ''txt'' \<notin> {''xlsx'', ''xls'', ''csv'', ''pdf'', ''docx''} \<and>
   fst (main example_generate (Some notes_txt) bar_widgets) = [] \<and>
   snd (main example_generate (Some notes_txt) bar_widgets) = None"
  by (simp add: main_def notes_txt_def no_file_def classify_def file_type_notes_txt)

text \<open>
  C9, amended. For an uploaded file whose extension (the lower-cased piece of the name
  after its last dot) is outside xlsx, xls, csv, pdf, docx, the main logic takes no
  branch: it shows nothing and raises nothing.
\<close>

theorem unsupported_extension_no_branch:
  assumes "file_type (name file) \<notin> {''xlsx'', ''xls'', ''csv'', ''pdf'', ''docx''}"
  shows "main generate (Some file) w = ([], None)"
  using assms by (simp add: main_def classify_def)

theorem unsupported_extension_no_branch_witness:
  "file_type (name notes_txt) \<notin> {''xlsx'', ''xls'', ''csv'', ''pdf'', ''docx''} \<and>
   main example_generate (Some notes_txt) bar_widgets = ([], None)"
proof -
  have h: "file_type (name notes_txt) \<notin> {''xlsx'', ''xls'', ''csv'', ''pdf'', ''docx''}"
    by (simp add: notes_txt_def no_file_def file_type_notes_txt)
  from h unsupported_extension_no_branch [OF h, of example_generate bar_widgets]
  show ?thesis by simp
qed

subsection \<open>Column selection and charts\<close>

text \<open>
  C6, as stated, fails: the axes are the first two selected names in the order of
  selection. On the table with the columns A and B, selecting B and then A gives a bar
  chart with \<open>x = B\<close> and \<open>y = A\<close>.
\<close>

theorem bar_chart_axes_counterexample:
  "columns table_AB = [''A'', ''B''] \<and>
   axes (excel_column_selection table_AB [''B'', ''A''] ''Bar Chart'') = [(''B'', ''A'')] \<and>
   axes (excel_column_selection table_AB [''B'', ''A''] ''Bar Chart'') \<noteq> [(''A'', ''B'')] \<and>
   axes (csv_column_selection table_AB [''B'', ''A''] ''Bar Chart'') \<noteq> [(''A'', ''B'')]"
  by (simp add: table_AB_def axes_def excel_column_selection_def csv_column_selection_def
      Let_def)

text \<open>
  C6, amended. For every table, and so for every table with the two columns A and B,
  the bar chart built from the selection of A and then B is one chart whose \<open>x\<close> and \<open>y\<close>
  column names read back as A and B in that order: the pair read back is the selection
  in the order it was made, so the selection of B and then A reads back as B and A.
\<close>

theorem bar_chart_axes_follow_selection:
  "axes (excel_column_selection df [a, b] ''Bar Chart'') = [(a, b)] \<and>
   axes (csv_column_selection df [a, b] ''Bar Chart'') = [(a, b)] \<and>
   map kind (charts (fst (excel_column_selection df [a, b] ''Bar Chart''))) = [Bar] \<and>
   map kind (charts (fst (csv_column_selection df [a, b] ''Bar Chart''))) = [Bar]"
  by (simp add: axes_def excel_column_selection_def csv_column_selection_def Let_def)

theorem bar_chart_axes_follow_selection_witness:
  "axes (excel_column_selection table_AB [''A'', ''B''] ''Bar Chart'') = [(''A'', ''B'')] \<and>
   axes (csv_column_selection table_AB [''B'', ''A''] ''Bar Chart'') = [(''B'', ''A'')]"
  using bar_chart_axes_follow_selection [of table_AB "''A''" "''B''"]
    bar_chart_axes_follow_selection [of table_AB "''B''" "''A''"]
  by simp

lemma column_selection_short:
  "length cs < 2 \<Longrightarrow> excel_column_selection df cs ct = ([], None)"
  "length cs < 2 \<Longrightarrow> csv_column_selection df cs ct = ([], None)"
  by (simp_all add: excel_column_selection_def csv_column_selection_def)

lemma main_no_chart:
  assumes "length (cols w) < 2"
  shows "charts (fst (main generate uploaded w)) = []"
  using assms
  by (simp add: main_def excel_branch_def csv_branch_def pdf_branch_def docx_branch_def
      and_then_def column_selection_short
      split: option.splits format_tag.splits sum.splits)

text \<open>
  C7. For every table, every chart type and every selection of fewer than two column
  names, the column selection step does nothing: no chart is built, nothing is shown and
  no exception is raised, in the Excel branch and in the CSV branch; and a run of the
  main logic with such a selection shows no chart, whatever the file.
\<close>

theorem fewer_than_two_columns_no_chart:
  assumes "length cs < 2"
  shows "excel_column_selection df cs ct = ([], None) \<and>
         csv_column_selection df cs ct = ([], None) \<and>
         charts (fst (main generate uploaded (w\<lparr>cols := cs\<rparr>))) = []"
  using assms main_no_chart [of "w\<lparr>cols := cs\<rparr>" generate uploaded]
  by (simp add: column_selection_short)

theorem fewer_than_two_columns_no_chart_witness:
  "length [''A''] < 2 \<and>
   excel_column_selection table_AB [''A''] ''Bar Chart'' = ([], None) \<and>
   csv_column_selection table_AB [''A''] ''Bar Chart'' = ([], None) \<and>
   charts (fst (main example_generate (Some sales_csv) (bar_widgets\<lparr>cols := [''A'']\<rparr>))) = []"
  using fewer_than_two_columns_no_chart
    [of "[''A'']" table_AB "''Bar Chart''" example_generate "Some sales_csv" bar_widgets]
  by simp

text \<open>
  C10. For every selection of two or more column names and each of the four chart types,
  one chart is built, its axes are the first and the second selected name, and the run
  is the same as for the selection of those two names alone: a third or later selected
  column changes nothing.
\<close>

theorem first_two_selected_columns:
  assumes "ct \<in> set chart_types"
  shows "axes (excel_column_selection df (a # b # rest) ct) = [(a, b)] \<and>
         axes (csv_column_selection df (a # b # rest) ct) = [(a, b)] \<and>
         excel_column_selection df (a # b # rest) ct = excel_column_selection df [a, b] ct \<and>
         csv_column_selection df (a # b # rest) ct = csv_column_selection df [a, b] ct"
  using assms
  by (auto simp: chart_types_def axes_def excel_column_selection_def csv_column_selection_def
      Let_def)

theorem first_two_selected_columns_witness:
  "''Pie Chart'' \<in> set chart_types \<and>
   axes (excel_column_selection table_AB [''B'', ''A'', ''B''] ''Pie Chart'') = [(''B'', ''A'')] \<and>
   excel_column_selection table_AB [''B'', ''A'', ''B''] ''Pie Chart'' =
     excel_column_selection table_AB [''B'', ''A''] ''Pie Chart''"
proof -
  have h: "''Pie Chart'' \<in> set chart_types" by (simp add: chart_types_def)
  from h first_two_selected_columns [OF h, of table_AB "''B''" "''A''" "[''B'']"]
  show ?thesis by blast
qed

subsection \<open>The word cloud\<close>

lemma frequencies_set:
  "set (frequencies ws) = (\<lambda>w. (w, count_list ws w)) ` set ws"
  by (simp add: frequencies_def)

lemma frequencies_distinct: "distinct (map fst (frequencies ws))"
  by (simp add: frequencies_def comp_def)

lemma rank_set: "set (rank fs) = set fs"
  by (simp add: rank_def)

lemma rank_distinct: "distinct (map fst fs) \<Longrightarrow> distinct (map fst (rank fs))"
  by (simp add: rank_def distinct_map)

lemma rank_sorted: "sorted_wrt (\<lambda>p q. snd q \<le> snd p) (rank fs)"
proof -
  have "sorted (map (\<lambda>p. - int (snd p)) (rank fs))"
    unfolding rank_def by (rule sorted_sort_key)
  then show ?thesis
    by (simp add: sorted_map)
qed

lemma take_distinct_fst: "distinct (map fst xs) \<Longrightarrow> distinct (map fst (take k xs))"
  by (simp add: take_map [symmetric] distinct_take)

lemma sorted_wrt_take_drop:
  assumes "sorted_wrt R xs" and "x \<in> set (take k xs)" and "y \<in> set (drop k xs)"
  shows "R x y"
proof -
  from assms(1) have "sorted_wrt R (take k xs @ drop k xs)" by simp
  then show ?thesis
    using assms(2,3) by (simp only: sorted_wrt_append)
qed

lemma count_list_filter:
  "count_list (filter P xs) x = (if P x then count_list xs x else 0)"
  by (induction xs) auto

text \<open>
  A prefix of the ranking of the words that are not stop words: at most \<open>k\<close> entries, no
  word twice, no stop word, each word with its number of occurrences in the text, in the
  order of falling frequency; and a word left out occurs at most as often as any word of
  the prefix.
\<close>

lemma ranked_prefix_props:
  fixes sw :: "string list" and body :: string and k :: nat
  defines "ws \<equiv> take k (rank (frequencies (filter (\<lambda>w. w \<notin> set sw) (tokenize body))))"
  shows "length ws \<le> k"
    and "distinct (map fst ws)"
    and "\<forall>(w, n) \<in> set ws. w \<notin> set sw \<and> n = count_list (tokenize body) w \<and> 0 < n"
    and "sorted_wrt (\<lambda>p q. snd q \<le> snd p) ws"
    and "\<forall>v \<in> set (tokenize body). v \<notin> set sw \<longrightarrow> v \<notin> fst ` set ws \<longrightarrow>
           (\<forall>(w, n) \<in> set ws. count_list (tokenize body) v \<le> n)"
proof -
  define kept where "kept = filter (\<lambda>w. w \<notin> set sw) (tokenize body)"
  define ranked where "ranked = rank (frequencies kept)"
  have ws: "ws = take k ranked"
    by (simp add: ws_def kept_def ranked_def)
  have kept_count: "count_list kept v = count_list (tokenize body) v"
    if "v \<notin> set sw" for v
    using that by (simp add: kept_def count_list_filter)
  show "length ws \<le> k" by (simp add: ws)
  show "distinct (map fst ws)"
    unfolding ws ranked_def by (intro take_distinct_fst rank_distinct frequencies_distinct)
  have sub: "set ws \<subseteq> (\<lambda>w. (w, count_list kept w)) ` set kept"
    unfolding ws ranked_def using set_take_subset [of k "rank (frequencies kept)"]
    by (simp add: rank_set frequencies_set)
  show "\<forall>(w, n) \<in> set ws. w \<notin> set sw \<and> n = count_list (tokenize body) w \<and> 0 < n"
  proof clarify
    fix w n assume "(w, n) \<in> set ws"
    with sub have w: "w \<in> set kept" and n: "n = count_list kept w" by auto
    from w have sw: "w \<notin> set sw" by (simp add: kept_def)
    from w have "count_list kept w \<noteq> 0" by (simp add: count_list_0_iff)
    with n sw show "w \<notin> set sw \<and> n = count_list (tokenize body) w \<and> 0 < n"
      by (simp add: kept_count)
  qed
  show "sorted_wrt (\<lambda>p q. snd q \<le> snd p) ws"
    unfolding ws ranked_def by (intro sorted_wrt_take rank_sorted)
  show "\<forall>v \<in> set (tokenize body). v \<notin> set sw \<longrightarrow> v \<notin> fst ` set ws \<longrightarrow>
          (\<forall>(w, n) \<in> set ws. count_list (tokenize body) v \<le> n)"
  proof (intro ballI impI, clarify)
    fix v w n
    assume v: "v \<in> set (tokenize body)" and nsw: "v \<notin> set sw"
      and out: "v \<notin> fst ` set ws" and wn: "(w, n) \<in> set ws"
    from v nsw have "v \<in> set kept" by (simp add: kept_def)
    then have "(v, count_list kept v) \<in> set ranked"
      by (simp add: ranked_def rank_set frequencies_set)
    then have "(v, count_list kept v) \<in> set (take k ranked) \<union> set (drop k ranked)"
      by (simp only: set_append [symmetric] append_take_drop_id)
    moreover have "(v, count_list kept v) \<notin> set (take k ranked)"
      using out unfolding ws by force
    ultimately have "(v, count_list kept v) \<in> set (drop k ranked)" by blast
    moreover have "(w, n) \<in> set (take k ranked)"
      using wn by (simp add: ws)
    moreover have "sorted_wrt (\<lambda>p q. snd q \<le> snd p) ranked"
      unfolding ranked_def by (rule rank_sorted)
    ultimately have "count_list kept v \<le> n"
      using sorted_wrt_take_drop [of "\<lambda>p q. snd q \<le> snd p" ranked "(w, n)" k
          "(v, count_list kept v)"]
      by simp
    then show "count_list (tokenize body) v \<le> n"
      by (simp add: kept_count nsw)
  qed
qed

text \<open>
  When the package returns, the object has the settings it was given and its words are a
  prefix, not empty and of at most \<open>max_words\<close> entries, of the ranking.
\<close>

lemma package_generate_returns:
  assumes "package_generate sw placed self body = Inr wc"
  shows "\<exists>k. k \<le> max_words self \<and>
           wc_words wc = take k (rank (frequencies (filter (\<lambda>w. w \<notin> set sw) (tokenize body)))) \<and>
           wc_words wc \<noteq> [] \<and> wc = self\<lparr>wc_words := wc_words wc\<rparr>"
proof -
  let ?all = "rank (frequencies (filter (\<lambda>w. w \<notin> set sw) (tokenize body)))"
  let ?ranked = "ranked_words sw (max_words self) body"
  let ?k = "min (placed self ?ranked) (max_words self)"
  have r: "take (placed self ?ranked) ?ranked = take ?k ?all"
    by (simp add: ranked_words_def)
  from assms have ne: "take (placed self ?ranked) ?ranked \<noteq> []"
    and wc: "wc = self\<lparr>wc_words := take (placed self ?ranked) ?ranked\<rparr>"
    by (auto simp: package_generate_def Let_def split: if_splits)
  from wc have w: "wc_words wc = take ?k ?all" by (simp add: r)
  have "?k \<le> max_words self" by simp
  moreover from ne have "wc_words wc \<noteq> []" by (simp add: w r)
  moreover from wc have "wc = self\<lparr>wc_words := wc_words wc\<rparr>" by simp
  ultimately show ?thesis using w by blast
qed

lemma package_generate_no_word:
  assumes "\<forall>w \<in> set (tokenize body). w \<in> set sw"
  shows "package_generate sw placed self body = Inl ValueError"
proof -
  from assms have "filter (\<lambda>w. w \<notin> set sw) (tokenize body) = []"
    by (simp add: filter_empty_conv)
  then have "ranked_words sw (max_words self) body = []"
    by (simp add: ranked_words_def frequencies_def rank_def)
  then show ?thesis
    by (simp add: package_generate_def)
qed

lemma package_generate_some_word:
  assumes "w \<in> set (tokenize body)" and "w \<notin> set sw" and "0 < max_words self"
    and "0 < placed self (ranked_words sw (max_words self) body)"
  shows "\<exists>wc. package_generate sw placed self body = Inr wc"
proof -
  let ?kept = "filter (\<lambda>w. w \<notin> set sw) (tokenize body)"
  from assms(1,2) have "(w, count_list ?kept w) \<in> set (rank (frequencies ?kept))"
    by (simp add: rank_set frequencies_set)
  then have "rank (frequencies ?kept) \<noteq> []" by auto
  with assms(3) have "ranked_words sw (max_words self) body \<noteq> []"
    by (simp add: ranked_words_def)
  with assms(4) have
    "take (placed self (ranked_words sw (max_words self) body))
       (ranked_words sw (max_words self) body) \<noteq> []"
    by simp
  then show ?thesis
    by (simp add: package_generate_def Let_def)
qed

lemma tokenize_example:
  "tokenize ''the the the cat cat dog'' = [''the'', ''the'', ''the'', ''cat'', ''cat'', ''dog'']"
  by code_simp

lemma ranked_example:
  assumes "''the'' \<in> set sw" "''cat'' \<notin> set sw" "''dog'' \<notin> set sw"
  shows "ranked_words sw 200 ''the the the cat cat dog'' = [(''cat'', 2), (''dog'', 1)]"
  using assms
  by (simp add: ranked_words_def tokenize_example frequencies_def rank_def)

text \<open>
  C8, as stated, fails: for a text that is not empty the artifact need not be built. From
  the text \<open>"the"\<close>, one stop word, the package keeps no word and raises; the run of a PDF
  with that text ends with \<open>ValueError\<close> and shows no word cloud.
\<close>

theorem wordcloud_canvas_and_words_counterexample:
  "''the'' \<noteq> [] \<and> ''the'' \<in> set [''a'', ''and'', ''the''] \<and>
   generate_wordcloud example_generate ''the'' = Inl ValueError \<and>
   snd (main example_generate (Some stopword_pdf) bar_widgets) = Some ValueError \<and>
   wordclouds (fst (main example_generate (Some stopword_pdf) bar_widgets)) = []"
proof -
  have "name stopword_pdf = ''the.pdf''" by (simp add: stopword_pdf_def no_file_def)
  then have "main example_generate (Some stopword_pdf) bar_widgets =
      pdf_branch example_generate stopword_pdf"
    by (simp add: main_def classify_pdf_names)
  then show ?thesis
    by (simp add: pdf_branch_def and_then_def extract_stopword_pdf example_generate_the)
qed

text \<open>
  C8, amended. For every stop-word set and every layout of the package: when
  \<open>generate_wordcloud\<close> returns a word cloud for a text, its canvas is 800 by 400 with a
  white background, and its words are at least one and at most 200, all distinct, none of
  them a stop word, each with its number of occurrences in the text, in the order of
  falling frequency, and no word left out is more frequent than a word rendered. It does
  return when the text has a word that is not a stop word and the layout places at least
  one word; for a text whose words are all stop words, or which has no word, it raises
  \<open>ValueError\<close> and there is no artifact. From the text \<open>"the the the cat cat dog"\<close>, with
  "the" a stop word, "cat" and "dog" not, and room for two words, the words rendered are
  "cat" with 2 and then "dog" with 1, and "the" is not among them.
\<close>

theorem wordcloud_canvas_and_words:
  "(generate_wordcloud (package_generate sw placed) text = Inr wc \<longrightarrow>
      width wc = 800 \<and> height wc = 400 \<and> background_color wc = ''white'' \<and>
      wc_words wc \<noteq> [] \<and> length (wc_words wc) \<le> 200 \<and> distinct (map fst (wc_words wc)) \<and>
      (\<forall>(w, n) \<in> set (wc_words wc).
         w \<notin> set sw \<and> n = count_list (tokenize text) w \<and> 0 < n) \<and>
      sorted_wrt (\<lambda>p q. snd q \<le> snd p) (wc_words wc) \<and>
      (\<forall>v \<in> set (tokenize text). v \<notin> set sw \<longrightarrow> v \<notin> fst ` set (wc_words wc) \<longrightarrow>
         (\<forall>(w, n) \<in> set (wc_words wc). count_list (tokenize text) v \<le> n))) \<and>
   ((\<exists>w \<in> set (tokenize text). w \<notin> set sw) \<and>
    0 < placed (WordCloud 800 400 ''white'' 200) (ranked_words sw 200 text) \<longrightarrow>
      (\<exists>wc'. generate_wordcloud (package_generate sw placed) text = Inr wc')) \<and>
   ((\<forall>w \<in> set (tokenize text). w \<in> set sw) \<longrightarrow>
      generate_wordcloud (package_generate sw placed) text = Inl ValueError) \<and>
   (''the'' \<in> set sw \<and> ''cat'' \<notin> set sw \<and> ''dog'' \<notin> set sw \<and>
    2 \<le> placed (WordCloud 800 400 ''white'' 200) [(''cat'', 2), (''dog'', 1)] \<longrightarrow>
      generate_wordcloud (package_generate sw placed) ''the the the cat cat dog'' =
        Inr ((WordCloud 800 400 ''white'' 200)\<lparr>wc_words := [(''cat'', 2), (''dog'', 1)]\<rparr>))"
proof (intro conjI impI)
  let ?self = "WordCloud 800 400 ''white'' 200"
  have mw: "max_words ?self = 200" by (simp add: WordCloud_def)
  {
    assume "generate_wordcloud (package_generate sw placed) text = Inr wc"
    then have "package_generate sw placed ?self text = Inr wc"
      by (simp add: generate_wordcloud_def)
    from package_generate_returns [OF this] obtain k where k: "k \<le> 200"
      and ws: "wc_words wc =
        take k (rank (frequencies (filter (\<lambda>w. w \<notin> set sw) (tokenize text))))"
      and ne: "wc_words wc \<noteq> []" and wc: "wc = ?self\<lparr>wc_words := wc_words wc\<rparr>"
      unfolding mw by blast
    from wc have "width wc = width (?self\<lparr>wc_words := wc_words wc\<rparr>)"
      and "height wc = height (?self\<lparr>wc_words := wc_words wc\<rparr>)"
      and "background_color wc = background_color (?self\<lparr>wc_words := wc_words wc\<rparr>)"
      by simp_all
    then show "width wc = 800" and "height wc = 400" and "background_color wc = ''white''"
      by (simp_all add: WordCloud_def)
    show "wc_words wc \<noteq> []" by (rule ne)
    show "length (wc_words wc) \<le> 200"
      using ranked_prefix_props(1) [of k sw "text"] k unfolding ws by linarith
    show "distinct (map fst (wc_words wc))"
      unfolding ws by (rule ranked_prefix_props(2))
    show "\<forall>(w, n) \<in> set (wc_words wc).
        w \<notin> set sw \<and> n = count_list (tokenize text) w \<and> 0 < n"
      unfolding ws by (rule ranked_prefix_props(3))
    show "sorted_wrt (\<lambda>p q. snd q \<le> snd p) (wc_words wc)"
      unfolding ws by (rule ranked_prefix_props(4))
    show "\<forall>v \<in> set (tokenize text). v \<notin> set sw \<longrightarrow> v \<notin> fst ` set (wc_words wc) \<longrightarrow>
        (\<forall>(w, n) \<in> set (wc_words wc). count_list (tokenize text) v \<le> n)"
      unfolding ws by (rule ranked_prefix_props(5))
  }
  {
    assume a: "(\<exists>w \<in> set (tokenize text). w \<notin> set sw) \<and>
      0 < placed ?self (ranked_words sw 200 text)"
    then obtain w where "w \<in> set (tokenize text)" and "w \<notin> set sw" by blast
    moreover have "0 < max_words ?self" by (simp add: mw)
    moreover from a have "0 < placed ?self (ranked_words sw (max_words ?self) text)"
      by (simp add: mw)
    ultimately have "\<exists>wc'. package_generate sw placed ?self text = Inr wc'"
      by (rule package_generate_some_word)
    then show "\<exists>wc'. generate_wordcloud (package_generate sw placed) text = Inr wc'"
      by (simp add: generate_wordcloud_def)
  }
  {
    assume "\<forall>w \<in> set (tokenize text). w \<in> set sw"
    then have "package_generate sw placed ?self text = Inl ValueError"
      by (rule package_generate_no_word)
    then show "generate_wordcloud (package_generate sw placed) text = Inl ValueError"
      by (simp add: generate_wordcloud_def)
  }
  {
    assume a: "''the'' \<in> set sw \<and> ''cat'' \<notin> set sw \<and> ''dog'' \<notin> set sw \<and>
      2 \<le> placed ?self [(''cat'', 2), (''dog'', 1)]"
    then have r: "ranked_words sw 200 ''the the the cat cat dog'' = [(''cat'', 2), (''dog'', 1)]"
      by (simp add: ranked_example)
    from a have "take (placed ?self [(''cat'', 2), (''dog'', 1)]) [(''cat'', 2), (''dog'', 1)] =
        [(''cat'', 2), (''dog'', 1)]"
      by simp
    then show "generate_wordcloud (package_generate sw placed) ''the the the cat cat dog'' =
        Inr (?self\<lparr>wc_words := [(''cat'', 2), (''dog'', 1)]\<rparr>)"
      by (simp add: generate_wordcloud_def package_generate_def mw r)
  }
qed

text \<open>
  The witness: the example package on the text of the spec, and a package with room for
  one word only, which keeps the most frequent word and leaves out a rarer one.
\<close>

theorem wordcloud_canvas_and_words_witness:
  "generate_wordcloud example_generate ''the the the cat cat dog'' =
     Inr ((WordCloud 800 400 ''white'' 200)\<lparr>wc_words := [(''cat'', 2), (''dog'', 1)]\<rparr>) \<and>
   width ((WordCloud 800 400 ''white'' 200)\<lparr>wc_words := [(''cat'', 2), (''dog'', 1)]\<rparr>) = 800 \<and>
   sorted_wrt (\<lambda>p q. snd q \<le> snd p) [(''cat'', 2::nat), (''dog'', 1)] \<and>
   generate_wordcloud (package_generate [''the''] (\<lambda>self ws. 1)) ''dog the cat cat'' =
     Inr ((WordCloud 800 400 ''white'' 200)\<lparr>wc_words := [(''cat'', 2)]\<rparr>) \<and>
   ''dog'' \<in> set (tokenize ''dog the cat cat'') \<and> ''dog'' \<notin> set [''the''] \<and>
   ''dog'' \<notin> fst ` set [(''cat'', 2::nat)] \<and>
   count_list (tokenize ''dog the cat cat'') ''dog'' \<le> 2"
proof -
  let ?full = "(WordCloud 800 400 ''white'' 200)\<lparr>wc_words := [(''cat'', 2), (''dog'', 1)]\<rparr>"
  let ?one = "(WordCloud 800 400 ''white'' 200)\<lparr>wc_words := [(''cat'', 2)]\<rparr>"
  have g1: "generate_wordcloud example_generate ''the the the cat cat dog'' = Inr ?full"
    using wordcloud_canvas_and_words
      [of "[''a'', ''and'', ''the'']" "\<lambda>self ws. length ws" "''the the the cat cat dog''" ?full]
    by (simp add: example_generate_def)
  have g2: "generate_wordcloud (package_generate [''the''] (\<lambda>self ws. 1)) ''dog the cat cat'' =
      Inr ?one"
    by code_simp
  have t: "tokenize ''dog the cat cat'' = [''dog'', ''the'', ''cat'', ''cat'']"
    by code_simp
  have "width ?full = 800 \<and> sorted_wrt (\<lambda>p q. snd q \<le> snd p) (wc_words ?full)"
    using wordcloud_canvas_and_words
      [of "[''a'', ''and'', ''the'']" "\<lambda>self ws. length ws" "''the the the cat cat dog''" ?full]
      g1
    by (simp add: example_generate_def)
  moreover have "count_list (tokenize ''dog the cat cat'') ''dog'' \<le> 2"
    using wordcloud_canvas_and_words
      [of "[''the'']" "\<lambda>self ws. 1" "''dog the cat cat''" ?one] g2
    by (simp add: t)
  ultimately show ?thesis
    using g1 g2 by (simp add: t)
qed

end
